theory Spec2Isabelle
  imports Complex_Main "HOL-Library.Char_ord" "HOL-Library.List_Lexorder"
    "HOL-Library.Product_Lexorder" "HOL-Library.Sublist" "HOL-Library.Log_Nat"
begin

section \<open>Data model\<close>

text \<open>
  The dashboard of \<^verbatim>\<open>src/main.py\<close> reads one spreadsheet into a pandas DataFrame,
  cleans it and derives its views from the cleaned frame.

  An amount is a float64 number. A finite float64 value is held as the rational number
  it denotes; NaN is \<open>None\<close> where a column can hold it, and infinite amounts are not
  modelled. The float64 sums of the category summary and of the dashboard totals are the
  library's. The bucket sums of the time bucketer and the cells of the pivot are written
  as exact sums; every such sum that is evaluated below is the sum of one amount.

  A Python \<^verbatim>\<open>str\<close> is the list of its Unicode code points. Labels and messages that the
  code or the library write are ASCII and are kept as strings.
\<close>

type_synonym amount = rat

type_synonym pystr = "nat list"

definition codes :: "string \<Rightarrow> pystr" where
  "codes s = map of_char s"

record date =
  year :: nat
  month :: nat
  day :: nat

text \<open>A pandas Timestamp: a calendar date and a time of day (in nanoseconds).\<close>

record timestamp =
  date_part :: date
  time_part :: nat

text \<open>
  What a cell of the uploaded sheet can hold: nothing (NaN), text, a whole number (a
  Python \<^verbatim>\<open>int\<close>), a float, a boolean or a date-time.
\<close>

datatype cell =
  Missing | Text pystr | Whole int | Double amount | Flag bool | Stamp timestamp

datatype PaymentType = CASH | ONLINE | OTHER

text \<open>
  A row of the raw frame, read through the three column labels the pipeline uses. The
  labels themselves come from row 1 of the frame (\<^verbatim>\<open>df.columns = df.iloc[1]\<close>); a sheet
  whose row 1 does not name the three columns is outside this model.
\<close>

record RawRow =
  fees_paid_date :: cell
  payment_details :: cell
  paid_amount :: cell

record CleanRecord =
  feesPaidDate :: "timestamp option"
  paymentType :: PaymentType
  paidAmount :: amount

text \<open>
  The cleaned frame. The column \<^verbatim>\<open>Week\<close> does not exist after cleaning; \<open>week\<close> is
  \<open>None\<close> until a statement adds the column, and then holds one value per record
  (\<open>None\<close> for pandas' \<^verbatim>\<open><NA>\<close>).
\<close>

record frame =
  records :: "CleanRecord list"
  week :: "nat option list option"

datatype error = IndexError | KeyError string | ValueError string | TypeError string

text \<open>What \<^verbatim>\<open>pd.to_numeric\<close> reads in one cell: a Python \<^verbatim>\<open>int\<close> or a float.\<close>

datatype number = PyInt int | PyFloat amount

text \<open>
  The pandas and Python library functions whose code is not part of the repository:
  \<^verbatim>\<open>pd.to_datetime(errors='coerce')\<close> on one value; the number that \<^verbatim>\<open>pd.to_numeric\<close>
  reads in a text, if any; \<^verbatim>\<open>str\<close> of a value that is not text; the upper-case mapping
  of Unicode for the code points not written out below; the float64 sum of the amounts of
  a group (\<^verbatim>\<open>groupby(...).sum()\<close>) and of a column (\<^verbatim>\<open>Series.sum()\<close>).
\<close>

record pandas =
  to_datetime :: "cell \<Rightarrow> timestamp option"
  parse_number :: "pystr \<Rightarrow> number option"
  str_of :: "cell \<Rightarrow> pystr"
  upper_of :: "nat \<Rightarrow> pystr"
  group_sum :: "amount list \<Rightarrow> amount"
  series_sum :: "amount list \<Rightarrow> amount"

section \<open>Float64 arithmetic\<close>

text \<open>
  The float64 nearest to a rational number, ties to the even significand: 53 significant
  bits, and steps of \<open>2 ^ - 1074\<close> below the normal range. Numbers beyond the float64
  range are not modelled. \<open>floor_log2 x\<close> is the integer part of the binary logarithm of
  a positive \<open>x\<close>.
\<close>

definition floor_log2 :: "rat \<Rightarrow> int" where
  "floor_log2 x = (if 1 \<le> x then bitlen \<lfloor>x\<rfloor> - 1 else - bitlen (\<lceil>1 / x\<rceil> - 1))"

definition round64 :: "rat \<Rightarrow> amount" where
  "round64 x =
     (if x = 0 then 0
      else let e = max (floor_log2 \<bar>x\<bar> - 52) (- 1074);
               u = (if 0 \<le> e then 2 ^ nat e else 1 / 2 ^ nat (- e));
               q = x / u;
               f = \<lfloor>q\<rfloor>;
               d = q - of_int f;
               n = (if d < 1 / 2 \<or> (d = 1 / 2 \<and> even f) then f else f + 1)
           in of_int n * u)"

text \<open>Float64 addition, and the sum of a list of amounts added up from left to right.\<close>

definition fadd :: "amount \<Rightarrow> amount \<Rightarrow> amount" where
  "fadd a b = round64 (a + b)"

definition ieee_sum :: "amount list \<Rightarrow> amount" where
  "ieee_sum xs = foldl fadd 0 xs"

section \<open>Ingestion and cleaning\<close>

text \<open>
  \<^verbatim>\<open>str.upper\<close> replaces each code point by its upper-case mapping in Unicode, which can
  be longer than one code point. The mapping is written out for ASCII, where only a to z
  change, and for the code points beyond ASCII that are mapped to ASCII letters: U+00DF
  (sharp s, to SS), U+0131 (dotless i, to I), U+017F (long s, to S) and the ligatures
  U+FB00 to U+FB06 (FF, FI, FL, FFI, FFL, ST, ST). For every other code point it is the
  library's table.
\<close>

definition ascii_upper :: "nat \<Rightarrow> nat" where
  "ascii_upper c = (if 97 \<le> c \<and> c \<le> 122 then c - 32 else c)"

definition upper_char :: "pandas \<Rightarrow> nat \<Rightarrow> pystr" where
  "upper_char L c =
     (if c < 128 then [ascii_upper c]
      else if c = 223 then [83, 83]
      else if c = 305 then [73]
      else if c = 383 then [83]
      else if c = 64256 then [70, 70]
      else if c = 64257 then [70, 73]
      else if c = 64258 then [70, 76]
      else if c = 64259 then [70, 70, 73]
      else if c = 64260 then [70, 70, 76]
      else if c = 64261 \<or> c = 64262 then [83, 84]
      else upper_of L c)"

definition upper :: "pandas \<Rightarrow> pystr \<Rightarrow> pystr" where
  "upper L s = concat (map (upper_char L) s)"

definition py_str :: "pandas \<Rightarrow> cell \<Rightarrow> pystr" where
  "py_str L x = (case x of Text s \<Rightarrow> s | _ \<Rightarrow> str_of L x)"

text \<open>\<^verbatim>\<open>Series.fillna(v)\<close> on one value.\<close>

definition fillna :: "cell \<Rightarrow> cell \<Rightarrow> cell" where
  "fillna v x = (case x of Missing \<Rightarrow> v | _ \<Rightarrow> x)"

text \<open>
  Lines 17 to 21:
  \<^verbatim>\<open>df['Payment Type'] = df['Payment Details'].fillna('OTHER')\<close>, then
  \<^verbatim>\<open>'CASH' if str(x).upper() == 'CASH' else ('ONLINE' if str(x).upper() == 'ONLINE' else 'OTHER')\<close>.
\<close>

definition classify_text :: "pandas \<Rightarrow> cell \<Rightarrow> PaymentType" where
  "classify_text L x =
     (if upper L (py_str L x) = codes ''CASH'' then CASH
      else if upper L (py_str L x) = codes ''ONLINE'' then ONLINE
      else OTHER)"

definition classify :: "pandas \<Rightarrow> cell \<Rightarrow> PaymentType" where
  "classify L x = classify_text L (fillna (Text (codes ''OTHER'')) x)"

text \<open>
  \<^verbatim>\<open>pd.to_numeric(errors='coerce')\<close> on a column of objects. Each cell is read first: a
  whole number and a float are themselves, a boolean is 1 or 0, a text is the number the
  library reads in it, and a missing cell, a text that is no number and a date-time are
  NaN (\<open>None\<close>).
\<close>

definition read_number :: "pandas \<Rightarrow> cell \<Rightarrow> number option" where
  "read_number L x =
     (case x of
        Whole i \<Rightarrow> Some (PyInt i)
      | Double a \<Rightarrow> Some (PyFloat a)
      | Flag b \<Rightarrow> Some (PyInt (if b then 1 else 0))
      | Text s \<Rightarrow> parse_number L s
      | Missing \<Rightarrow> None
      | Stamp t \<Rightarrow> None)"

text \<open>
  The column that comes out is a column of integers, each cell exact, when every cell was
  read as a whole number and they all fit into int64 or all into uint64. In every other
  case it is a float64 column, and a whole number is converted to the nearest float64.
\<close>

definition whole_numbers :: "number option list \<Rightarrow> int list" where
  "whole_numbers ns = List.map_filter (\<lambda>n. case n of Some (PyInt i) \<Rightarrow> Some i | _ \<Rightarrow> None) ns"

definition int_column :: "number option list \<Rightarrow> bool" where
  "int_column ns \<longleftrightarrow>
     length (whole_numbers ns) = length ns \<and>
     (list_all (\<lambda>i. - (2 ^ 63) \<le> i \<and> i < 2 ^ 63) (whole_numbers ns) \<or>
      list_all (\<lambda>i. 0 \<le> i \<and> i < 2 ^ 64) (whole_numbers ns))"

definition to_numeric :: "pandas \<Rightarrow> cell list \<Rightarrow> amount option list" where
  "to_numeric L col =
     (let ns = map (read_number L) col
      in map (map_option (\<lambda>n. case n of
                PyInt i \<Rightarrow> if int_column ns then of_int i else round64 (of_int i)
              | PyFloat a \<Rightarrow> a)) ns)"

text \<open>Line 23: \<^verbatim>\<open>pd.to_numeric(df['Paid Amount'], errors='coerce').fillna(0)\<close>.\<close>

definition coerce_amounts :: "pandas \<Rightarrow> cell list \<Rightarrow> amount list" where
  "coerce_amounts L col = map (\<lambda>a. case a of None \<Rightarrow> 0 | Some v \<Rightarrow> v) (to_numeric L col)"

text \<open>The clean record of a raw row, given its amount from the coerced column.\<close>

definition clean_row :: "pandas \<Rightarrow> RawRow \<Rightarrow> amount \<Rightarrow> CleanRecord" where
  "clean_row L r a =
     \<lparr>feesPaidDate = to_datetime L (fees_paid_date r),
      paymentType = classify L (payment_details r),
      paidAmount = a\<rparr>"

text \<open>
  \<^verbatim>\<open>clean_data\<close>: \<^verbatim>\<open>df.iloc[1]\<close> raises IndexError on a frame of fewer than two rows;
  \<^verbatim>\<open>df.iloc[2:]\<close> drops the two leading rows; the three column statements then work on
  every remaining row.
\<close>

definition clean_data :: "pandas \<Rightarrow> RawRow list \<Rightarrow> error + frame" where
  "clean_data L df =
     (if length df < 2 then Inl IndexError
      else let rows = drop 2 df
           in Inr \<lparr>records = map2 (clean_row L) rows (coerce_amounts L (map paid_amount rows)),
                   week = None\<rparr>)"

section \<open>Date filter and category summary\<close>

text \<open>
  \<^verbatim>\<open>.dt.date\<close> of a timestamp is its calendar date; of NaT it is NaT, which equals no
  date.
\<close>

definition dt_date :: "timestamp option \<Rightarrow> date option" where
  "dt_date t = map_option date_part t"

text \<open>Line 28: \<^verbatim>\<open>df[df['Fees Paid Date'].dt.date == selected_date]\<close>.\<close>

definition select_rows :: "date \<Rightarrow> CleanRecord list \<Rightarrow> CleanRecord list" where
  "select_rows d rs = filter (\<lambda>r. dt_date (feesPaidDate r) = Some d) rs"

text \<open>
  \<^verbatim>\<open>get_data_by_date\<close> builds a new frame from the rows where the mask holds; a
  \<^verbatim>\<open>Week\<close> column, when the frame has one, is cut down with them.
\<close>

definition get_data_by_date :: "frame \<Rightarrow> date \<Rightarrow> frame" where
  "get_data_by_date df selected_date =
     \<lparr>records = select_rows selected_date (records df),
      week = map_option
        (\<lambda>ws. map snd (filter (\<lambda>(r, w). dt_date (feesPaidDate r) = Some selected_date)
           (zip (records df) ws)))
        (week df)\<rparr>"




section \<open>Time bucketer\<close>

text \<open>
  The labels of the payment types are strings in the frame, and pandas sorts group keys;
  the order of the three labels as strings is the order of this instance.
\<close>

fun type_rank :: "PaymentType \<Rightarrow> nat" where
  "type_rank CASH = 0"
| "type_rank ONLINE = 1"
| "type_rank OTHER = 2"

instantiation PaymentType :: linorder
begin

definition less_eq_PaymentType :: "PaymentType \<Rightarrow> PaymentType \<Rightarrow> bool" where
  "less_eq_PaymentType a b \<longleftrightarrow> type_rank a \<le> type_rank b"

definition less_PaymentType :: "PaymentType \<Rightarrow> PaymentType \<Rightarrow> bool" where
  "less_PaymentType a b \<longleftrightarrow> type_rank a < type_rank b"

instance
proof
  fix x y :: PaymentType
  show "x \<le> y \<Longrightarrow> y \<le> x \<Longrightarrow> x = y"
    by (cases x; cases y) (simp_all add: less_eq_PaymentType_def)
qed (auto simp: less_eq_PaymentType_def less_PaymentType_def)

end

definition type_name :: "PaymentType \<Rightarrow> string" where
  "type_name t = (case t of CASH \<Rightarrow> ''CASH'' | ONLINE \<Rightarrow> ''ONLINE'' | OTHER \<Rightarrow> ''OTHER'')"

text \<open>
  A group key of \<^verbatim>\<open>create_time_summaries\<close>: the year, the month or week, the payment
  type. A record takes part in a grouping when none of its key values is missing
  (\<^verbatim>\<open>groupby\<close> drops the rows with a NaN key), the groups come out in ascending order
  of the key, and each carries the sum of its paid amounts.
\<close>

type_synonym key = "nat \<times> nat \<times> PaymentType"

text \<open>
  The Series that \<^verbatim>\<open>groupby([...])['Paid Amount'].sum()\<close> returns: the names of the
  index levels (each key Series brings the name of the column it was derived from), the
  name of the values, and one entry per group.
\<close>

record grouped =
  level_names :: "string list"
  value_name :: string
  entries :: "(key \<times> amount) list"

definition groupby_sum :: "string list \<Rightarrow> (key option \<times> amount) list \<Rightarrow> grouped" where
  "groupby_sum names kvs =
     (let present = List.map_filter (\<lambda>(k, v). map_option (\<lambda>k'. (k', v)) k) kvs
      in \<lparr>level_names = names, value_name = ''Paid Amount'',
          entries = map (\<lambda>k. (k, sum_list (map snd (filter (\<lambda>(k', v). k' = k) present))))
                      (sort (remdups (map fst present)))\<rparr>)"

text \<open>
  \<^verbatim>\<open>.dt.year\<close> and \<^verbatim>\<open>.dt.month\<close> of the column \<^verbatim>\<open>Fees Paid Date\<close>: both Series keep
  the name of the column.
\<close>

definition dt_year :: "timestamp option \<Rightarrow> nat option" where
  "dt_year t = map_option (\<lambda>t. year (date_part t)) t"

definition dt_month :: "timestamp option \<Rightarrow> nat option" where
  "dt_month t = map_option (\<lambda>t. month (date_part t)) t"

definition monthly_key :: "CleanRecord \<Rightarrow> key option" where
  "monthly_key r =
     (case (dt_year (feesPaidDate r), dt_month (feesPaidDate r)) of
        (Some y, Some m) \<Rightarrow> Some (y, m, paymentType r)
      | _ \<Rightarrow> None)"

text \<open>Lines 34 to 38, up to \<^verbatim>\<open>.sum()\<close>.\<close>

definition monthly_grouped :: "frame \<Rightarrow> grouped" where
  "monthly_grouped df =
     groupby_sum [''Fees Paid Date'', ''Fees Paid Date'', ''Payment Type'']
       (map (\<lambda>r. (monthly_key r, paidAmount r)) (records df))"

text \<open>
  The frame that \<^verbatim>\<open>reset_index()\<close> builds from a grouped Series: the column labels and
  one row per group.
\<close>

record bucket_table =
  columns :: "string list"
  body :: "(key \<times> amount) list"

text \<open>
  \<^verbatim>\<open>reset_index()\<close> starts from the one column of the values and inserts the index
  levels at the front, the last level first. \<^verbatim>\<open>DataFrame.insert\<close> refuses a label the
  frame already has.
\<close>

fun insert_levels :: "string list \<Rightarrow> string list \<Rightarrow> error + string list" where
  "insert_levels [] cols = Inr cols"
| "insert_levels (n # ns) cols =
     (if n \<in> set cols then Inl (ValueError (''cannot insert '' @ n @ '', already exists''))
      else insert_levels ns (n # cols))"

definition reset_index :: "grouped \<Rightarrow> error + bucket_table" where
  "reset_index g =
     (case insert_levels (rev (level_names g)) [value_name g] of
        Inl e \<Rightarrow> Inl e
      | Inr cols \<Rightarrow> Inr \<lparr>columns = cols, body = entries g\<rparr>)"

text \<open>Sequencing of steps that can raise: the first exception ends the computation.\<close>

definition and_then :: "error + 'a \<Rightarrow> ('a \<Rightarrow> error + 'b) \<Rightarrow> error + 'b" where
  "and_then m f = (case m of Inl e \<Rightarrow> Inl e | Inr v \<Rightarrow> f v)"

fun apply_rows :: "('a \<Rightarrow> error + 'b) \<Rightarrow> 'a list \<Rightarrow> error + 'b list" where
  "apply_rows f [] = Inr []"
| "apply_rows f (x # xs) =
     and_then (f x) (\<lambda>y. and_then (apply_rows f xs) (\<lambda>ys. Inr (y # ys)))"

text \<open>
  A row \<^verbatim>\<open>x\<close> handed to the label functions: \<^verbatim>\<open>x[name]\<close> finds the value under a
  column label and raises KeyError for a label the frame does not have.
\<close>

datatype field = IntV nat | TypeV PaymentType | AmountV amount

definition row_values :: "key \<times> amount \<Rightarrow> field list" where
  "row_values x = (case x of ((y, u, t), v) \<Rightarrow> [IntV y, IntV u, TypeV t, AmountV v])"

definition getitem :: "string list \<Rightarrow> key \<times> amount \<Rightarrow> string \<Rightarrow> error + field" where
  "getitem cols x name =
     (case map_of (zip cols (row_values x)) name of
        None \<Rightarrow> Inl (KeyError name) | Some v \<Rightarrow> Inr v)"

text \<open>\<^verbatim>\<open>int(v)\<close>: a float is cut towards zero, a text that is no number raises.\<close>

definition py_int :: "field \<Rightarrow> error + int" where
  "py_int v =
     (case v of IntV n \<Rightarrow> Inr (int n)
      | AmountV a \<Rightarrow> Inr (if a < 0 then - \<lfloor>- a\<rfloor> else \<lfloor>a\<rfloor>)
      | TypeV t \<Rightarrow> Inl (ValueError (''invalid literal for int() with base 10: '' @ type_name t)))"

text \<open>\<^verbatim>\<open>calendar.month_name\<close>, a sequence of thirteen names read with Python's indexing.\<close>

definition month_names :: "string list" where
  "month_names = [[], ''January'', ''February'', ''March'', ''April'', ''May'', ''June'',
     ''July'', ''August'', ''September'', ''October'', ''November'', ''December'']"

definition month_name :: "int \<Rightarrow> error + string" where
  "month_name i =
     (if 0 \<le> i \<and> i < 13 then Inr (month_names ! nat i)
      else if - 13 \<le> i \<and> i < 0 then Inr (month_names ! nat (i + 13))
      else Inl IndexError)"

text \<open>The decimal text of an integer, as an f-string prints it.\<close>

fun str_nat :: "nat \<Rightarrow> string" where
  "str_nat n =
     (if n < 10 then [''0123456789'' ! n] else str_nat (n div 10) @ [''0123456789'' ! (n mod 10)])"

definition str_int :: "int \<Rightarrow> string" where
  "str_int i = (if i < 0 then CHR ''-'' # str_nat (nat (- i)) else str_nat (nat i))"

text \<open>
  Line 41: \<^verbatim>\<open>f"{calendar.month_name[int(x['Month'])]} {int(x['Year'])}"\<close> and line 54:
  \<^verbatim>\<open>f"Week {int(x['Week'])}, {int(x['Year'])}"\<close>, on a row of a frame with the column
  labels \<open>cols\<close>.
\<close>

definition monthly_period :: "string list \<Rightarrow> key \<times> amount \<Rightarrow> error + string" where
  "monthly_period cols x =
     and_then (getitem cols x ''Month'') (\<lambda>m. and_then (py_int m) (\<lambda>m.
     and_then (month_name m) (\<lambda>name.
     and_then (getitem cols x ''Year'') (\<lambda>y. and_then (py_int y) (\<lambda>y.
     Inr (name @ '' '' @ str_int y))))))"

definition weekly_period :: "string list \<Rightarrow> key \<times> amount \<Rightarrow> error + string" where
  "weekly_period cols x =
     and_then (getitem cols x ''Week'') (\<lambda>w. and_then (py_int w) (\<lambda>w.
     and_then (getitem cols x ''Year'') (\<lambda>y. and_then (py_int y) (\<lambda>y.
     Inr (''Week '' @ str_int w @ '', '' @ str_int y)))))"

record TimeBucketRow =
  bucketYear :: nat
  periodUnit :: nat
  bucketType :: PaymentType
  sumAmount :: amount
  period :: string

text \<open>
  \<^verbatim>\<open>summary['Period'] = summary.apply(label, axis=1)\<close>. On a frame with rows, the label
  function runs on every row and the first exception ends the call. On a frame without
  rows, \<^verbatim>\<open>apply\<close> hands back a copy of the frame, and assigning a frame of four columns
  to the one column \<^verbatim>\<open>Period\<close> raises ValueError.
\<close>

definition with_period ::
  "(string list \<Rightarrow> key \<times> amount \<Rightarrow> error + string) \<Rightarrow> bucket_table \<Rightarrow> error + TimeBucketRow list"
where
  "with_period label t =
     (if body t = []
      then Inl (ValueError
        ''Cannot set a DataFrame with multiple columns to the single column Period'')
      else and_then (apply_rows (label (columns t)) (body t)) (\<lambda>labels.
        Inr (map (\<lambda>(((y, u, p), v), l).
               \<lparr>bucketYear = y, periodUnit = u, bucketType = p, sumAmount = v, period = l\<rparr>)
             (zip (body t) labels))))"

text \<open>
  The ISO week number of a date, by the algorithm of Python's \<^verbatim>\<open>date.isocalendar\<close>:
  days are counted from 1 January of year 1, week 1 of a year is the week (from Monday)
  that holds its first Thursday.
\<close>

definition is_leap :: "int \<Rightarrow> bool" where
  "is_leap y \<longleftrightarrow> y mod 4 = 0 \<and> (y mod 100 \<noteq> 0 \<or> y mod 400 = 0)"

definition days_before_year :: "int \<Rightarrow> int" where
  "days_before_year y = (y - 1) * 365 + (y - 1) div 4 - (y - 1) div 100 + (y - 1) div 400"

definition days_in_month :: "int \<Rightarrow> nat \<Rightarrow> int" where
  "days_in_month y m =
     (if m = 2 then (if is_leap y then 29 else 28)
      else if m \<in> {4, 6, 9, 11} then 30 else 31)"

definition ymd2ord :: "int \<Rightarrow> nat \<Rightarrow> nat \<Rightarrow> int" where
  "ymd2ord y m d = days_before_year y + sum_list (map (days_in_month y) [1..<m]) + int d"

definition isoweek1monday :: "int \<Rightarrow> int" where
  "isoweek1monday y =
     (let firstday = ymd2ord y 1 1;
          firstweekday = (firstday + 6) mod 7;
          week1monday = firstday - firstweekday
      in if firstweekday > 3 then week1monday + 7 else week1monday)"

definition isoweek :: "date \<Rightarrow> nat" where
  "isoweek d =
     (let y = int (year d);
          today = ymd2ord y (month d) (day d);
          w = (today - isoweek1monday y) div 7
      in if w < 0 then nat ((today - isoweek1monday (y - 1)) div 7 + 1)
         else if w \<ge> 52 \<and> today \<ge> isoweek1monday (y + 1) then 1
         else nat (w + 1))"

text \<open>
  The frames live in a store and a variable holds the address of its frame, so that a
  statement which writes into a frame is seen by everyone who holds that address.
  Line 46, \<^verbatim>\<open>df['Week'] = df['Fees Paid Date'].dt.isocalendar().week\<close>, writes the
  column into the frame \<^verbatim>\<open>df\<close> refers to.
\<close>

type_synonym store = "nat \<Rightarrow> frame"

definition attach_week :: "store \<Rightarrow> nat \<Rightarrow> store" where
  "attach_week s df =
     s(df := (s df)\<lparr>week :=
        Some (map (\<lambda>r. map_option (\<lambda>t. isoweek (date_part t)) (feesPaidDate r))
                (records (s df)))\<rparr>)"

definition weekly_key :: "CleanRecord \<times> nat option \<Rightarrow> key option" where
  "weekly_key rw =
     (case (dt_year (feesPaidDate (fst rw)), snd rw) of
        (Some y, Some w) \<Rightarrow> Some (y, w, paymentType (fst rw))
      | _ \<Rightarrow> None)"

text \<open>Lines 47 to 51, up to \<^verbatim>\<open>.sum()\<close>; the key \<^verbatim>\<open>'Week'\<close> names a column of the frame.\<close>

definition weekly_grouped :: "frame \<Rightarrow> error + grouped" where
  "weekly_grouped df =
     (case week df of
        None \<Rightarrow> Inl (KeyError ''Week'')
      | Some ws \<Rightarrow>
          Inr (groupby_sum [''Fees Paid Date'', ''Week'', ''Payment Type'']
                 (map (\<lambda>rw. (weekly_key rw, paidAmount (fst rw))) (zip (records df) ws))))"

text \<open>
  \<^verbatim>\<open>create_time_summaries\<close>, called with the address of the cleaned frame: the monthly
  summary (lines 34 to 43), the week column (line 46), the weekly summary (lines 47 to
  56). An exception leaves the store as it is at that moment.
\<close>

definition create_time_summaries ::
  "store \<Rightarrow> nat \<Rightarrow> (error + TimeBucketRow list \<times> TimeBucketRow list) \<times> store"
where
  "create_time_summaries s df =
     (case and_then (reset_index (monthly_grouped (s df))) (with_period monthly_period) of
        Inl e \<Rightarrow> (Inl e, s)
      | Inr monthly_summary \<Rightarrow>
          (let s' = attach_week s df
           in case and_then (and_then (weekly_grouped (s' df)) reset_index)
                     (with_period weekly_period) of
                Inl e \<Rightarrow> (Inl e, s')
              | Inr weekly_summary \<Rightarrow> (Inr (monthly_summary, weekly_summary), s')))"

section \<open>Pivot builder\<close>

text \<open>
  \<^verbatim>\<open>pd.pivot_table(summary, values='Paid Amount', index='Period',
  columns='Payment Type', aggfunc='sum', fill_value=0)\<close>: the rows are the period labels
  and the columns are the payment types that occur in \<^verbatim>\<open>summary\<close>, both sorted (the
  default \<^verbatim>\<open>sort=True\<close>); a cell is the sum of the amounts of its period and type, and
  \<^verbatim>\<open>fill_value\<close> where the summary has no such row.
\<close>

record pivot =
  type_columns :: "PaymentType list"
  prows :: "(string \<times> amount list) list"

definition pivot_cell :: "TimeBucketRow list \<Rightarrow> string \<Rightarrow> PaymentType \<Rightarrow> amount" where
  "pivot_cell bs p t =
     (let vs = map sumAmount (filter (\<lambda>b. period b = p \<and> bucketType b = t) bs)
      in if vs = [] then 0 else sum_list vs)"

definition pivot_table :: "TimeBucketRow list \<Rightarrow> pivot" where
  "pivot_table bs =
     (let cols = sort (remdups (map bucketType bs))
      in \<lparr>type_columns = cols,
          prows = map (\<lambda>p. (p, map (pivot_cell bs p) cols)) (sort (remdups (map period bs)))\<rparr>)"

record PivotRow =
  Period :: string
  Cash :: amount
  Online :: amount
  Other :: amount
  Total :: amount

text \<open>
  Lines 198 and 216: \<^verbatim>\<open>pivot[['CASH', 'ONLINE', 'OTHER']].sum(axis=1)\<close>. Selecting the
  three columns raises KeyError when the pivot lacks one of them (the error carries the
  first missing label here); \<^verbatim>\<open>select\<close> reads the value of a row under a column.
\<close>

definition select :: "PaymentType list \<Rightarrow> amount list \<Rightarrow> PaymentType \<Rightarrow> error + amount" where
  "select cols vs t =
     (case map_of (zip cols vs) t of
        None \<Rightarrow> Inl (KeyError (type_name t)) | Some v \<Rightarrow> Inr v)"

definition total_row :: "PaymentType list \<Rightarrow> string \<times> amount list \<Rightarrow> error + PivotRow" where
  "total_row cols row =
     and_then (select cols (snd row) CASH) (\<lambda>c.
     and_then (select cols (snd row) ONLINE) (\<lambda>n.
     and_then (select cols (snd row) OTHER) (\<lambda>t.
     Inr \<lparr>Period = fst row, Cash = c, Online = n, Other = t, Total = c + n + t\<rparr>)))"

definition pivot_builder :: "TimeBucketRow list \<Rightarrow> error + PivotRow list" where
  "pivot_builder bs =
     (let pv = pivot_table bs
      in case filter (\<lambda>t. t \<notin> set (type_columns pv)) [CASH, ONLINE, OTHER] of
           t # ts \<Rightarrow> Inl (KeyError (type_name t))
         | [] \<Rightarrow> apply_rows (total_row (type_columns pv)) (prows pv))"

section \<open>Dashboard totals\<close>

text \<open>
  Line 103 of \<^verbatim>\<open>main\<close>, which runs for every page once a file is uploaded:
  \<^verbatim>\<open>sorted(df['Fees Paid Date'].dt.date.unique())\<close>. The distinct values are the
  calendar dates and, where a record has no date, NaT. Sorting compares the values, and
  comparing NaT with a date raises TypeError; a list that holds no NaT, or NaT alone,
  is sorted without it.
\<close>

definition available_dates :: "frame \<Rightarrow> error + date option list" where
  "available_dates df =
     (let ds = remdups (map (\<lambda>r. dt_date (feesPaidDate r)) (records df))
      in if None \<in> set ds \<and> (\<exists>d \<in> set ds. d \<noteq> None)
         then Inl (TypeError ''Cannot compare NaT with datetime.date object'')
         else Inr (map Some (sort_key (\<lambda>d. (year d, month d, day d))
                     (List.map_filter (\<lambda>d. d) ds)) @ filter (\<lambda>d. d = None) ds))"

record metrics =
  total_collection :: amount
  total_transactions :: nat
  unique_dates :: nat

text \<open>
  The page Advanced Analytics, lines 228 to 230, reached through line 103:
  \<^verbatim>\<open>df['Paid Amount'].sum()\<close>, \<^verbatim>\<open>len(df)\<close> and
  \<^verbatim>\<open>df['Fees Paid Date'].dt.date.nunique()\<close>, which does not count NaT.
\<close>

definition advanced_analytics :: "pandas \<Rightarrow> frame \<Rightarrow> error + metrics" where
  "advanced_analytics L df =
     and_then (available_dates df) (\<lambda>dates.
       Inr \<lparr>total_collection = series_sum L (map paidAmount (records df)),
            total_transactions = length (records df),
            unique_dates = length (remdups (List.map_filter (\<lambda>r. dt_date (feesPaidDate r))
                                      (records df)))\<rparr>)"

section \<open>The library of the examples\<close>

text \<open>
  A library for the worked examples below: a date-time cell is its own timestamp and
  nothing else is read as a date; no text is read as a number; \<^verbatim>\<open>str\<close> of a value that is
  not text is \<^verbatim>\<open>nan\<close>; the code points not written out above are their own upper case;
  and the float64 sums are added up from left to right, which is what pandas computes on
  the frames of the examples (columns of at most three amounts, groups of at most two).
\<close>

definition example_pandas :: pandas where
  "example_pandas =
     \<lparr>to_datetime = (\<lambda>x. case x of Stamp t \<Rightarrow> Some t | _ \<Rightarrow> None),
      parse_number = (\<lambda>s. None),
      str_of = (\<lambda>x. codes ''nan''),
      upper_of = (\<lambda>c. [c]),
      group_sum = ieee_sum,
      series_sum = ieee_sum\<rparr>"

section \<open>The specification's notions\<close>

text \<open>
  Case-insensitive equality of two texts, in the specification's words: the texts are
  equal once the letters A to Z are read as a to z. It is stated apart from the
  upper-casing the code does.
\<close>

definition lower_char :: "nat \<Rightarrow> nat" where
  "lower_char c = (if 65 \<le> c \<and> c \<le> 90 then c + 32 else c)"

definition case_insensitively_equal :: "pystr \<Rightarrow> pystr \<Rightarrow> bool" where
  "case_insensitively_equal s t \<longleftrightarrow> map lower_char s = map lower_char t"

text \<open>
  The grouping order of the source rows, in the specification's words: the period labels
  in the order in which they first occur in the bucket rows.
\<close>

definition grouping_order :: "TimeBucketRow list \<Rightarrow> string list" where
  "grouping_order bs = rev (remdups (rev (map period bs)))"

section \<open>Ingestion and cleaning: properties\<close>

lemma length_coerce_amounts: "length (coerce_amounts L col) = length col"
  by (simp add: coerce_amounts_def to_numeric_def Let_def)

text \<open>
  C2. A raw table of two leading header-like rows and N data rows is cleaned into exactly
  N records, the clean record of each data row in turn, whatever the library makes of
  the dates, payment details and amounts: cleaning returns a frame and drops no row.
\<close>

theorem clean_data_totality:
  "\<exists>f. clean_data L (h0 # h1 # rows) = Inr f \<and> length (records f) = length rows \<and>
       records f = map2 (clean_row L) rows (coerce_amounts L (map paid_amount rows))"
  by (simp add: clean_data_def length_coerce_amounts)

lemma upper_lower_char: "ascii_upper (lower_char c) = ascii_upper c"
  by (simp add: ascii_upper_def lower_char_def)

lemma lower_upper_char: "lower_char (ascii_upper c) = lower_char c"
  by (auto simp: ascii_upper_def lower_char_def)

lemma upper_ascii: "\<forall>c \<in> set s. c < 128 \<Longrightarrow> upper L s = map ascii_upper s"
  by (induction s) (simp_all add: upper_def upper_char_def)

lemma map_upper_eq_iff_ci:
  "map ascii_upper s = map ascii_upper t \<longleftrightarrow> case_insensitively_equal s t"
proof
  assume "map ascii_upper s = map ascii_upper t"
  then have "map lower_char (map ascii_upper s) = map lower_char (map ascii_upper t)"
    by simp
  then show "case_insensitively_equal s t"
    by (simp add: case_insensitively_equal_def comp_def lower_upper_char)
next
  assume "case_insensitively_equal s t"
  then have "map ascii_upper (map lower_char s) = map ascii_upper (map lower_char t)"
    by (simp add: case_insensitively_equal_def)
  then show "map ascii_upper s = map ascii_upper t"
    by (simp add: comp_def upper_lower_char)
qed

lemma codes_CASH: "codes ''CASH'' = [67, 65, 83, 72]"
  by (simp add: codes_def)

lemma codes_ONLINE: "codes ''ONLINE'' = [79, 78, 76, 73, 78, 69]"
  by (simp add: codes_def)

lemma codes_OTHER: "codes ''OTHER'' = [79, 84, 72, 69, 82]"
  by (simp add: codes_def)

lemma upper_CASH: "map ascii_upper (codes ''CASH'') = codes ''CASH''"
  by (simp add: codes_CASH ascii_upper_def)

lemma upper_ONLINE: "map ascii_upper (codes ''ONLINE'') = codes ''ONLINE''"
  by (simp add: codes_ONLINE ascii_upper_def)

lemma ascii_is_CASH:
  "\<forall>c \<in> set s. c < 128 \<Longrightarrow>
   upper L s = codes ''CASH'' \<longleftrightarrow> case_insensitively_equal s (codes ''CASH'')"
  using map_upper_eq_iff_ci [of s "codes ''CASH''"] by (simp add: upper_ascii upper_CASH)

lemma ascii_is_ONLINE:
  "\<forall>c \<in> set s. c < 128 \<Longrightarrow>
   upper L s = codes ''ONLINE'' \<longleftrightarrow> case_insensitively_equal s (codes ''ONLINE'')"
  using map_upper_eq_iff_ci [of s "codes ''ONLINE''"] by (simp add: upper_ascii upper_ONLINE)

lemma classify_not_missing: "x \<noteq> Missing \<Longrightarrow> classify L x = classify_text L x"
  by (cases x) (simp_all add: classify_def fillna_def)

lemma classify_Missing: "classify L Missing = OTHER"
  by (simp add: classify_def fillna_def classify_text_def py_str_def upper_def upper_char_def
      codes_CASH codes_ONLINE codes_OTHER ascii_upper_def)

text \<open>
  C3, as claimed: a value that is not case-insensitively equal to CASH or to ONLINE is
  classified OTHER. The text of the letters o, n, l, U+0131 (the dotless i), n, e is
  equal to neither up to the case of its letters, and \<^verbatim>\<open>str.upper\<close> makes it
  \<^verbatim>\<open>ONLINE\<close>: the code classifies it ONLINE.
\<close>

theorem classify_dotless_i_counterexample:
  "\<not> case_insensitively_equal [111, 110, 108, 305, 110, 101] (codes ''CASH'') \<and>
   \<not> case_insensitively_equal [111, 110, 108, 305, 110, 101] (codes ''ONLINE'') \<and>
   classify example_pandas (Text [111, 110, 108, 305, 110, 101]) = ONLINE"
  by (simp add: case_insensitively_equal_def lower_char_def codes_CASH codes_ONLINE
      classify_def fillna_def classify_text_def py_str_def upper_def upper_char_def
      ascii_upper_def)

text \<open>
  C3, amended. Payment classification is a function from every payment-detail value into
  the three payment types and has no error result. A missing value is classified OTHER.
  Any other value is classified by the upper case of its text, \<^verbatim>\<open>str(x).upper()\<close>: CASH
  when that is \<^verbatim>\<open>CASH\<close>, ONLINE when it is \<^verbatim>\<open>ONLINE\<close>, OTHER in every other case. For a
  text of ASCII characters this is case-insensitive equality with CASH and with ONLINE.
\<close>

theorem classify_total:
  "classify L Missing = OTHER \<and>
   classify L x \<in> {CASH, ONLINE, OTHER} \<and>
   (x \<noteq> Missing \<longrightarrow>
      (classify L x = CASH \<longleftrightarrow> upper L (py_str L x) = codes ''CASH'') \<and>
      (classify L x = ONLINE \<longleftrightarrow> upper L (py_str L x) = codes ''ONLINE'') \<and>
      (classify L x = OTHER \<longleftrightarrow>
         upper L (py_str L x) \<noteq> codes ''CASH'' \<and> upper L (py_str L x) \<noteq> codes ''ONLINE'')) \<and>
   (x \<noteq> Missing \<and> (\<forall>c \<in> set (py_str L x). c < 128) \<longrightarrow>
      (classify L x = CASH \<longleftrightarrow> case_insensitively_equal (py_str L x) (codes ''CASH'')) \<and>
      (classify L x = ONLINE \<longleftrightarrow> case_insensitively_equal (py_str L x) (codes ''ONLINE'')) \<and>
      (classify L x = OTHER \<longleftrightarrow>
         \<not> case_insensitively_equal (py_str L x) (codes ''CASH'') \<and>
         \<not> case_insensitively_equal (py_str L x) (codes ''ONLINE'')))"
proof -
  have ne: "codes ''CASH'' \<noteq> codes ''ONLINE''"
    by (simp add: codes_CASH codes_ONLINE)
  have a: "classify L x \<in> {CASH, ONLINE, OTHER}"
    by (cases "classify L x") simp_all
  have b: "x \<noteq> Missing \<Longrightarrow>
      (classify L x = CASH \<longleftrightarrow> upper L (py_str L x) = codes ''CASH'') \<and>
      (classify L x = ONLINE \<longleftrightarrow> upper L (py_str L x) = codes ''ONLINE'') \<and>
      (classify L x = OTHER \<longleftrightarrow>
         upper L (py_str L x) \<noteq> codes ''CASH'' \<and> upper L (py_str L x) \<noteq> codes ''ONLINE'')"
    using ne by (auto simp: classify_not_missing classify_text_def)
  have c: "x \<noteq> Missing \<and> (\<forall>c \<in> set (py_str L x). c < 128) \<Longrightarrow>
      (classify L x = CASH \<longleftrightarrow> case_insensitively_equal (py_str L x) (codes ''CASH'')) \<and>
      (classify L x = ONLINE \<longleftrightarrow> case_insensitively_equal (py_str L x) (codes ''ONLINE'')) \<and>
      (classify L x = OTHER \<longleftrightarrow>
         \<not> case_insensitively_equal (py_str L x) (codes ''CASH'') \<and>
         \<not> case_insensitively_equal (py_str L x) (codes ''ONLINE''))"
    using b ascii_is_CASH [of "py_str L x" L] ascii_is_ONLINE [of "py_str L x" L] by blast
  from classify_Missing a b c show ?thesis
    by blast
qed

theorem classify_total_witness:
  "Text (codes ''oNline'') \<noteq> Missing \<and>
   list_all (\<lambda>c. c < 128) (codes ''oNline'') \<and>
   case_insensitively_equal (codes ''oNline'') (codes ''ONLINE'') \<and>
   classify example_pandas (Text (codes ''oNline'')) = ONLINE"
proof -
  have s: "py_str example_pandas (Text (codes ''oNline'')) = codes ''oNline''"
    by (simp add: py_str_def)
  have h: "\<forall>c \<in> set (codes ''oNline''). c < 128"
    by (simp add: codes_def)
  have e: "case_insensitively_equal (codes ''oNline'') (codes ''ONLINE'')"
    by (simp add: codes_def case_insensitively_equal_def lower_char_def)
  from classify_total [of example_pandas "Text (codes ''oNline'')"] h e
  have "classify example_pandas (Text (codes ''oNline'')) = ONLINE"
    unfolding s by blast
  with h e show ?thesis
    by (simp add: list_all_iff)
qed








section \<open>Date filter and category summary: properties\<close>

text \<open>
  C5. For every cleaned frame and every target date, the date filter returns a
  subsequence of the records in their input order that holds, as often as the input
  does, exactly the records whose date is the target date, whatever their time of day; a
  record without a date is never in it; and where no record matches, the result is the
  empty sequence. The filter has no error result.
\<close>

theorem select_by_date:
  "subseq (records (get_data_by_date df d)) (records df) \<and>
   (\<forall>r. count_list (records (get_data_by_date df d)) r =
        (if map_option date_part (feesPaidDate r) = Some d then count_list (records df) r else 0)) \<and>
   (\<forall>r. r \<in> set (records (get_data_by_date df d)) \<longleftrightarrow>
        r \<in> set (records df) \<and> (\<exists>t. feesPaidDate r = Some t \<and> date_part t = d)) \<and>
   (\<forall>r \<in> set (records (get_data_by_date df d)). feesPaidDate r \<noteq> None) \<and>
   ((\<forall>r \<in> set (records df). map_option date_part (feesPaidDate r) \<noteq> Some d) \<longrightarrow>
        records (get_data_by_date df d) = [])"
proof -
  let ?P = "\<lambda>r. dt_date (feesPaidDate r) = Some d"
  have rec: "records (get_data_by_date df d) = filter ?P (records df)"
    by (simp add: get_data_by_date_def select_rows_def)
  have cnt: "count_list (filter ?P xs) r = (if ?P r then count_list xs r else 0)"
    for xs :: "CleanRecord list" and r
    by (induction xs) auto
  have "subseq (filter ?P (records df)) (records df)"
    by (rule subseq_filter_left)
  moreover have "\<forall>r. count_list (filter ?P (records df)) r =
        (if map_option date_part (feesPaidDate r) = Some d then count_list (records df) r else 0)"
    using cnt [of "records df"] by (simp add: dt_date_def)
  moreover have "\<forall>r. r \<in> set (filter ?P (records df)) \<longleftrightarrow>
        r \<in> set (records df) \<and> (\<exists>t. feesPaidDate r = Some t \<and> date_part t = d)"
    by (auto simp: dt_date_def)
  moreover have "\<forall>r \<in> set (filter ?P (records df)). feesPaidDate r \<noteq> None"
    by (auto simp: dt_date_def)
  moreover have "(\<forall>r \<in> set (records df). map_option date_part (feesPaidDate r) \<noteq> Some d) \<longrightarrow>
        filter ?P (records df) = []"
    by (auto simp: dt_date_def filter_empty_conv)
  ultimately show ?thesis
    unfolding rec by blast
qed

theorem select_by_date_witness:
  "(let r1 = \<lparr>feesPaidDate = Some \<lparr>date_part = \<lparr>year = 2024, month = 1, day = 5\<rparr>, time_part = 0\<rparr>,
              paymentType = CASH, paidAmount = 100\<rparr>;
        r2 = \<lparr>feesPaidDate = None, paymentType = OTHER, paidAmount = 0\<rparr>;
        r3 = \<lparr>feesPaidDate = Some \<lparr>date_part = \<lparr>year = 2024, month = 1, day = 5\<rparr>, time_part = 7\<rparr>,
              paymentType = ONLINE, paidAmount = 50\<rparr>;
        r4 = \<lparr>feesPaidDate = Some \<lparr>date_part = \<lparr>year = 2024, month = 2, day = 1\<rparr>, time_part = 0\<rparr>,
              paymentType = CASH, paidAmount = 20\<rparr>;
        df = \<lparr>records = [r1, r2, r3, r4], week = None\<rparr>
    in records (get_data_by_date df \<lparr>year = 2024, month = 1, day = 5\<rparr>) = [r1, r3] \<and>
       (\<forall>r \<in> set (records (get_data_by_date df \<lparr>year = 2024, month = 1, day = 5\<rparr>)).
          feesPaidDate r \<noteq> None) \<and>
       (\<forall>r \<in> set (records df).
          map_option date_part (feesPaidDate r) \<noteq> Some \<lparr>year = 2024, month = 3, day = 9\<rparr>) \<and>
       records (get_data_by_date df \<lparr>year = 2024, month = 3, day = 9\<rparr>) = [])"
proof -
  let ?r1 = "\<lparr>feesPaidDate = Some \<lparr>date_part = \<lparr>year = 2024, month = 1, day = 5\<rparr>, time_part = 0\<rparr>,
              paymentType = CASH, paidAmount = 100\<rparr>"
  let ?r2 = "\<lparr>feesPaidDate = None, paymentType = OTHER, paidAmount = 0\<rparr>"
  let ?r3 = "\<lparr>feesPaidDate = Some \<lparr>date_part = \<lparr>year = 2024, month = 1, day = 5\<rparr>, time_part = 7\<rparr>,
              paymentType = ONLINE, paidAmount = 50\<rparr>"
  let ?r4 = "\<lparr>feesPaidDate = Some \<lparr>date_part = \<lparr>year = 2024, month = 2, day = 1\<rparr>, time_part = 0\<rparr>,
              paymentType = CASH, paidAmount = 20\<rparr>"
  let ?df = "\<lparr>records = [?r1, ?r2, ?r3, ?r4], week = None\<rparr>"
  have h: "\<forall>r \<in> set (records ?df).
          map_option date_part (feesPaidDate r) \<noteq> Some \<lparr>year = 2024, month = 3, day = 9\<rparr>"
    by simp
  have e: "records (get_data_by_date ?df \<lparr>year = 2024, month = 1, day = 5\<rparr>) = [?r1, ?r3]"
    by (simp add: get_data_by_date_def select_rows_def dt_date_def)
  from select_by_date [of ?df "\<lparr>year = 2024, month = 3, day = 9\<rparr>"]
    select_by_date [of ?df "\<lparr>year = 2024, month = 1, day = 5\<rparr>"] h e
  show ?thesis
    unfolding Let_def by blast
qed










section \<open>Dashboard totals: properties\<close>

text \<open>
  Where no record of the frame has a date, line 103 does not raise and the totals count
  every record.
\<close>

lemma advanced_analytics_no_dates:
  assumes "\<forall>r \<in> set rs. feesPaidDate r = None"
  shows "advanced_analytics L \<lparr>records = rs, week = w\<rparr> =
     Inr \<lparr>total_collection = series_sum L (map paidAmount rs),
          total_transactions = length rs, unique_dates = 0\<rparr>"
proof -
  from assms have m: "map (\<lambda>r. dt_date (feesPaidDate r)) rs = map (\<lambda>r. None) rs"
    by (simp add: dt_date_def)
  have f: "List.map_filter (\<lambda>r. dt_date (feesPaidDate r)) rs = []"
    using assms by (simp add: List.map_filter_def dt_date_def filter_empty_conv)
  have "\<not> (\<exists>d \<in> set (remdups (map (\<lambda>r. dt_date (feesPaidDate r)) rs)). d \<noteq> None)"
    unfolding m by auto
  then show ?thesis
    by (simp add: advanced_analytics_def available_dates_def and_then_def Let_def f)
qed

text \<open>
  C7. The claim is that a record without a date is still counted in the totals of the
  whole frame. On the frame of one record dated 5 January 2024 and one record without a
  date, line 103 raises TypeError before any page is drawn: sorting the distinct dates
  compares NaT with a date. The total collection and the number of transactions of lines
  228 and 229 are never computed for a frame that holds both a dated and an undated
  record.
\<close>

theorem dashboard_totals_raise:
  "(let r1 = \<lparr>feesPaidDate = Some \<lparr>date_part = \<lparr>year = 2024, month = 1, day = 5\<rparr>, time_part = 0\<rparr>,
              paymentType = CASH, paidAmount = 100\<rparr>;
        r = \<lparr>feesPaidDate = None, paymentType = OTHER, paidAmount = 30\<rparr>;
        df = \<lparr>records = [r1, r], week = None\<rparr>
    in feesPaidDate r = None \<and>
       available_dates df = Inl (TypeError ''Cannot compare NaT with datetime.date object'') \<and>
       advanced_analytics L df =
         Inl (TypeError ''Cannot compare NaT with datetime.date object''))"
  by (simp add: Let_def advanced_analytics_def available_dates_def dt_date_def and_then_def)

section \<open>Time bucketer: properties\<close>

lemma groupby_sum_drop_missing:
  "groupby_sum names (xs @ (None, v) # ys) = groupby_sum names (xs @ ys)"
  by (simp add: groupby_sum_def List.map_filter_def)

lemma monthly_key_absent: "feesPaidDate r = None \<Longrightarrow> monthly_key r = None"
  by (simp add: monthly_key_def dt_year_def)

lemma monthly_grouped_absent:
  "feesPaidDate r = None \<Longrightarrow>
   monthly_grouped \<lparr>records = xs @ r # ys, week = w\<rparr> =
     monthly_grouped \<lparr>records = xs @ ys, week = w\<rparr>"
  by (simp add: monthly_grouped_def monthly_key_absent groupby_sum_drop_missing)

lemma attach_week_at:
  "attach_week s a a = (s a)\<lparr>week := Some (map (\<lambda>r. map_option (\<lambda>t. isoweek (date_part t))
      (feesPaidDate r)) (records (s a)))\<rparr>"
  by (simp add: attach_week_def)

lemma weekly_grouped_attached:
  "weekly_grouped (attach_week s a a) =
     Inr (groupby_sum [''Fees Paid Date'', ''Week'', ''Payment Type'']
       (map (\<lambda>r. (weekly_key (r, map_option (\<lambda>t. isoweek (date_part t)) (feesPaidDate r)),
                   paidAmount r)) (records (s a))))"
  by (simp add: weekly_grouped_def attach_week_at zip_map2 zip_same_conv_map comp_def)

lemma weekly_key_absent: "feesPaidDate r = None \<Longrightarrow> weekly_key (r, w) = None"
  by (simp add: weekly_key_def dt_year_def)

lemma weekly_grouped_absent:
  "feesPaidDate r = None \<Longrightarrow>
   weekly_grouped (attach_week (\<lambda>a. \<lparr>records = xs @ r # ys, week = w\<rparr>) a a) =
   weekly_grouped (attach_week (\<lambda>a. \<lparr>records = xs @ ys, week = w\<rparr>) a a)"
  by (simp add: weekly_grouped_attached weekly_key_absent groupby_sum_drop_missing)

lemma monthly_reset_index:
  "reset_index (monthly_grouped f) =
     Inl (ValueError ''cannot insert Fees Paid Date, already exists'')"
  by (simp add: reset_index_def monthly_grouped_def groupby_sum_def Let_def)

lemma create_time_summaries_raises:
  "create_time_summaries s df =
     (Inl (ValueError ''cannot insert Fees Paid Date, already exists''), s)"
  by (simp add: create_time_summaries_def monthly_reset_index and_then_def)

lemma monthly_period_KeyError:
  "monthly_period [''Fees Paid Date'', ''Fees Paid Date'', ''Payment Type'', ''Paid Amount''] x =
     Inl (KeyError ''Month'')"
  by (cases x) (auto simp: monthly_period_def getitem_def row_values_def and_then_def)

lemma weekly_reset_index:
  "reset_index (groupby_sum [''Fees Paid Date'', ''Week'', ''Payment Type''] kvs) =
     Inr \<lparr>columns = [''Fees Paid Date'', ''Week'', ''Payment Type'', ''Paid Amount''],
          body = entries (groupby_sum [''Fees Paid Date'', ''Week'', ''Payment Type''] kvs)\<rparr>"
  by (simp add: reset_index_def groupby_sum_def Let_def)

lemma weekly_period_KeyError:
  "weekly_period [''Fees Paid Date'', ''Week'', ''Payment Type'', ''Paid Amount''] x =
     Inl (KeyError ''Year'')"
  by (cases x) (auto simp: weekly_period_def getitem_def row_values_def and_then_def py_int_def)

text \<open>
  C8. The claim is that the period label is derived for every bucket. On the frame of the
  one record of 100 in cash paid on 5 January 2024, the grouping finds the bucket
  (2024, 1, CASH) of sum 100, and \<^verbatim>\<open>reset_index()\<close> then raises ValueError: the year and
  the month level both carry the name of the column they were read from. No bucket row
  and no label is produced. The label functions read the columns \<^verbatim>\<open>Month\<close> and
  \<^verbatim>\<open>Year\<close>, which neither summary frame has: on a row of the monthly or of the weekly
  summary they raise KeyError.
\<close>

theorem time_bucketer_raises:
  "(let r = \<lparr>feesPaidDate = Some \<lparr>date_part = \<lparr>year = 2024, month = 1, day = 5\<rparr>, time_part = 0\<rparr>,
             paymentType = CASH, paidAmount = 100\<rparr>;
        s = (\<lambda>a. \<lparr>records = [r], week = None\<rparr>)
    in entries (monthly_grouped (s 0)) = [((2024, 1, CASH), 100)] \<and>
       fst (create_time_summaries s 0) =
         Inl (ValueError ''cannot insert Fees Paid Date, already exists'') \<and>
       monthly_period [''Fees Paid Date'', ''Fees Paid Date'', ''Payment Type'', ''Paid Amount'']
         ((2024, 1, CASH), 100) = Inl (KeyError ''Month'') \<and>
       weekly_period [''Fees Paid Date'', ''Week'', ''Payment Type'', ''Paid Amount'']
         ((2024, 1, CASH), 100) = Inl (KeyError ''Year''))"
  by (simp add: Let_def create_time_summaries_raises monthly_period_KeyError
      weekly_period_KeyError monthly_grouped_def groupby_sum_def monthly_key_def dt_year_def
      dt_month_def List.map_filter_def)

text \<open>
  C10. After the time bucketer has run on the frame at an address, the store is as it was:
  the frame that was passed, and every other frame, has the records and columns it had
  before, and no \<^verbatim>\<open>Week\<close> column was added to it. (The call ends in the monthly summary,
  before the statement of line 46 that attaches the week number.)
\<close>

theorem time_bucketer_frame_unchanged:
  "snd (create_time_summaries s df) = s \<and>
   records (snd (create_time_summaries s df) df) = records (s df) \<and>
   week (snd (create_time_summaries s df) df) = week (s df)"
  by (simp add: create_time_summaries_raises)

section \<open>Pivot builder: properties\<close>

lemma apply_rows_Inr:
  "(\<And>p. f (k p) = Inr (g p)) \<Longrightarrow> apply_rows f (map k ps) = Inr (map g ps)"
  by (induction ps) (simp_all add: and_then_def)

lemma apply_rows_map:
  "(\<And>x y. f x = Inr y \<Longrightarrow> g y = h x) \<Longrightarrow> apply_rows f xs = Inr ys \<Longrightarrow> map g ys = map h xs"
proof (induction xs arbitrary: ys)
  case Nil
  then show ?case by simp
next
  case (Cons x xs)
  from Cons.prems(2) obtain y zs where y: "f x = Inr y" and zs: "apply_rows f xs = Inr zs"
    and ys: "ys = y # zs"
    by (auto simp: and_then_def split: sum.splits)
  from Cons.IH [OF Cons.prems(1) zs] Cons.prems(1) [OF y] ys show ?case
    by simp
qed

lemma total_row_Period: "total_row cols row = Inr y \<Longrightarrow> Period y = fst row"
  by (auto simp: total_row_def and_then_def split: sum.splits)

lemma all_types_columns:
  assumes "{CASH, ONLINE, OTHER} \<subseteq> set ts"
  shows "sort (remdups ts) = [CASH, ONLINE, OTHER]"
proof (rule sorted_distinct_set_unique)
  show "sorted (sort (remdups ts))" by simp
  show "distinct (sort (remdups ts))" by simp
  show "sorted [CASH, ONLINE, OTHER]" by (simp add: less_eq_PaymentType_def)
  show "distinct [CASH, ONLINE, OTHER]" by simp
  have "set ts \<subseteq> {CASH, ONLINE, OTHER}"
  proof
    fix t assume "t \<in> set ts"
    show "t \<in> {CASH, ONLINE, OTHER}" by (cases t) simp_all
  qed
  with assms show "set (sort (remdups ts)) = set [CASH, ONLINE, OTHER]" by auto
qed

lemma pivot_cell_sum:
  "pivot_cell bs p t =
     sum_list (map sumAmount (filter (\<lambda>b. period b = p \<and> bucketType b = t) bs))"
  by (simp add: pivot_cell_def Let_def)

lemma total_row_all:
  "total_row [CASH, ONLINE, OTHER] (p, [c, n, t]) =
     Inr \<lparr>Period = p, Cash = c, Online = n, Other = t, Total = c + n + t\<rparr>"
  by (simp add: total_row_def select_def and_then_def)

text \<open>
  Where each of the three payment types occurs in some bucket row, the pivot has one row
  per period label, its three columns are the sums of the period and type (0 where the
  period has no row of the type) and its total is their sum.
\<close>

lemma pivot_builder_complete:
  assumes "{CASH, ONLINE, OTHER} \<subseteq> bucketType ` set bs"
  shows "pivot_builder bs =
     Inr (map (\<lambda>p. \<lparr>Period = p, Cash = pivot_cell bs p CASH, Online = pivot_cell bs p ONLINE,
                    Other = pivot_cell bs p OTHER,
                    Total = pivot_cell bs p CASH + pivot_cell bs p ONLINE + pivot_cell bs p OTHER\<rparr>)
            (sort (remdups (map period bs))))"
proof -
  from assms have cols: "sort (remdups (map bucketType bs)) = [CASH, ONLINE, OTHER]"
    by (intro all_types_columns) simp
  have "pivot_builder bs =
      apply_rows (total_row [CASH, ONLINE, OTHER])
        (map (\<lambda>p. (p, [pivot_cell bs p CASH, pivot_cell bs p ONLINE, pivot_cell bs p OTHER]))
           (sort (remdups (map period bs))))"
    by (simp add: pivot_builder_def pivot_table_def Let_def cols)
  also have "\<dots> = Inr (map (\<lambda>p. \<lparr>Period = p, Cash = pivot_cell bs p CASH,
                    Online = pivot_cell bs p ONLINE, Other = pivot_cell bs p OTHER,
                    Total = pivot_cell bs p CASH + pivot_cell bs p ONLINE + pivot_cell bs p OTHER\<rparr>)
            (sort (remdups (map period bs))))"
    by (rule apply_rows_Inr) (rule total_row_all)
  finally show ?thesis .
qed

text \<open>
  C1. The claim is that the pivot has a row for every period with the columns CASH,
  ONLINE and OTHER, 0 also for a payment type that occurs nowhere in the bucket rows. On
  the one bucket row of January 2024 in cash, the pivot table has the column CASH only,
  and selecting the three columns for the total raises KeyError: no row is produced.
\<close>

theorem pivot_builder_missing_type:
  "pivot_builder [\<lparr>bucketYear = 2024, periodUnit = 1, bucketType = CASH, sumAmount = 100,
                   period = ''January 2024''\<rparr>] = Inl (KeyError ''ONLINE'')"
  by (simp add: pivot_builder_def pivot_table_def Let_def type_name_def)

lemma pivot_example:
  "pivot_builder
     [\<lparr>bucketYear = 2024, periodUnit = 1, bucketType = CASH, sumAmount = 100,
        period = ''January 2024''\<rparr>,
      \<lparr>bucketYear = 2024, periodUnit = 1, bucketType = ONLINE, sumAmount = 50,
        period = ''January 2024''\<rparr>,
      \<lparr>bucketYear = 2024, periodUnit = 2, bucketType = CASH, sumAmount = 20,
        period = ''February 2024''\<rparr>,
      \<lparr>bucketYear = 2024, periodUnit = 2, bucketType = OTHER, sumAmount = 7,
        period = ''February 2024''\<rparr>] =
   Inr [\<lparr>Period = ''February 2024'', Cash = 20, Online = 0, Other = 7, Total = 27\<rparr>,
        \<lparr>Period = ''January 2024'', Cash = 100, Online = 50, Other = 0, Total = 150\<rparr>]"
  by code_simp

text \<open>
  C9, as claimed: the pivot rows come in the order in which their periods first occur in
  the bucket rows. On the bucket rows of January and February 2024, in the order of their
  keys, the pivot has the row of February before the row of January.
\<close>

theorem pivot_order_counterexample:
  "(let bs =
      [\<lparr>bucketYear = 2024, periodUnit = 1, bucketType = CASH, sumAmount = 100,
         period = ''January 2024''\<rparr>,
       \<lparr>bucketYear = 2024, periodUnit = 1, bucketType = ONLINE, sumAmount = 50,
         period = ''January 2024''\<rparr>,
       \<lparr>bucketYear = 2024, periodUnit = 2, bucketType = CASH, sumAmount = 20,
         period = ''February 2024''\<rparr>,
       \<lparr>bucketYear = 2024, periodUnit = 2, bucketType = OTHER, sumAmount = 7,
         period = ''February 2024''\<rparr>]
    in \<exists>rows. pivot_builder bs = Inr rows \<and>
         map Period rows = [''February 2024'', ''January 2024''] \<and>
         grouping_order bs = [''January 2024'', ''February 2024''] \<and>
         map Period rows \<noteq> grouping_order bs)"
  unfolding Let_def by (subst pivot_example) (simp add: grouping_order_def)

text \<open>
  C9, amended: the pivot rows are in ascending order of the period label as a string,
  one row per label that occurs in the bucket rows, whatever the order of the bucket
  rows; the rows with their totals keep the order of the pivot table.
\<close>

theorem pivot_rows_sorted:
  "sorted (map fst (prows (pivot_table bs))) \<and>
   distinct (map fst (prows (pivot_table bs))) \<and>
   set (map fst (prows (pivot_table bs))) = period ` set bs \<and>
   (\<forall>rows. pivot_builder bs = Inr rows \<longrightarrow> map Period rows = map fst (prows (pivot_table bs)))"
proof -
  have idx: "map fst (prows (pivot_table bs)) = sort (remdups (map period bs))"
    by (simp add: pivot_table_def Let_def comp_def)
  have "\<forall>rows. pivot_builder bs = Inr rows \<longrightarrow> map Period rows = map fst (prows (pivot_table bs))"
  proof (intro allI impI)
    fix rows assume "pivot_builder bs = Inr rows"
    then have "apply_rows (total_row (type_columns (pivot_table bs))) (prows (pivot_table bs)) =
        Inr rows"
      by (simp add: pivot_builder_def Let_def split: list.splits)
    then show "map Period rows = map fst (prows (pivot_table bs))"
      by (rule apply_rows_map [rotated]) (rule total_row_Period)
  qed
  then show ?thesis
    unfolding idx by simp
qed

theorem pivot_rows_sorted_witness:
  "(let bs =
      [\<lparr>bucketYear = 2024, periodUnit = 1, bucketType = CASH, sumAmount = 100,
         period = ''January 2024''\<rparr>,
       \<lparr>bucketYear = 2024, periodUnit = 1, bucketType = ONLINE, sumAmount = 50,
         period = ''January 2024''\<rparr>,
       \<lparr>bucketYear = 2024, periodUnit = 2, bucketType = CASH, sumAmount = 20,
         period = ''February 2024''\<rparr>,
       \<lparr>bucketYear = 2024, periodUnit = 2, bucketType = OTHER, sumAmount = 7,
         period = ''February 2024''\<rparr>]
    in \<exists>rows. pivot_builder bs = Inr rows \<and>
         map fst (prows (pivot_table bs)) = [''February 2024'', ''January 2024''] \<and>
         map Period rows = map fst (prows (pivot_table bs)))"
proof -
  let ?bs = "[\<lparr>bucketYear = 2024, periodUnit = 1, bucketType = CASH, sumAmount = 100,
         period = ''January 2024''\<rparr>,
       \<lparr>bucketYear = 2024, periodUnit = 1, bucketType = ONLINE, sumAmount = 50,
         period = ''January 2024''\<rparr>,
       \<lparr>bucketYear = 2024, periodUnit = 2, bucketType = CASH, sumAmount = 20,
         period = ''February 2024''\<rparr>,
       \<lparr>bucketYear = 2024, periodUnit = 2, bucketType = OTHER, sumAmount = 7,
         period = ''February 2024''\<rparr>]"
  let ?rows = "[\<lparr>Period = ''February 2024'', Cash = 20, Online = 0, Other = 7, Total = 27\<rparr>,
        \<lparr>Period = ''January 2024'', Cash = 100, Online = 50, Other = 0, Total = 150\<rparr>]"
  have r: "pivot_builder ?bs = Inr ?rows"
    by (rule pivot_example)
  have p: "map Period ?rows = [''February 2024'', ''January 2024'']"
    by simp
  from pivot_rows_sorted [of ?bs]
  have "\<forall>rows. pivot_builder ?bs = Inr rows \<longrightarrow>
      map Period rows = map fst (prows (pivot_table ?bs))"
    by (elim conjE)
  then have e: "map Period ?rows = map fst (prows (pivot_table ?bs))"
    using r by (elim allE impE)
  have m: "map fst (prows (pivot_table ?bs)) = [''February 2024'', ''January 2024'']"
    by (rule trans [OF e [symmetric] p])
  show ?thesis
    unfolding Let_def by (rule exI [of _ ?rows]) (intro conjI r m e)
qed

end
